theory Spec2Isabelle
  imports Complex_Main "HOL-Library.AList"
begin

section \<open>Python primitives used by the assessment engine\<close>

text \<open>
  Strings are byte strings (UTF-8); \<open>strip\<close> and \<open>lower\<close> are modelled on the ASCII range,
  where they act character by character, and leave other bytes as they are. Python floats
  are represented by the exact rational they denote: every float the theorems below
  evaluate (0, 50, 100, ...) is exactly representable, and no theorem depends on how a
  tie is rounded. Timestamps (\<open>_now()\<close>, an ISO-8601 string in the source) are
  represented by the instant they denote, in microseconds since the epoch: an ISO-8601
  string is never empty, so the truth value of a stored timestamp is that of "the column
  is not NULL". \<open>_uid()\<close> and \<open>_now()\<close> read the environment; the operations take what
  they return as arguments.
\<close>

type_synonym timestamp = int

text \<open>\<open>round(x, ndigits)\<close>: to the nearest multiple of \<open>10 ^ -ndigits\<close>, ties to even.\<close>

definition py_round :: "rat \<Rightarrow> nat \<Rightarrow> rat" where
  "py_round x ndigits =
     (let s = x * 10 ^ ndigits; f = \<lfloor>s\<rfloor>; d = s - of_int f
      in of_int (if d < 1 / 2 then f else if 1 / 2 < d then f + 1
                 else if even f then f else f + 1) / 10 ^ ndigits)"

text \<open>\<open>str.isspace\<close> on the ASCII range: TAB, LF, VT, FF, CR, FS, GS, RS, US and space.\<close>

definition isspace :: "char \<Rightarrow> bool" where
  "isspace c = (let n = (of_char c :: nat) in (9 \<le> n \<and> n \<le> 13) \<or> (28 \<le> n \<and> n \<le> 32))"

definition str_strip :: "string \<Rightarrow> string" where
  "str_strip s = rev (dropWhile isspace (rev (dropWhile isspace s)))"

definition lower_char :: "char \<Rightarrow> char" where
  "lower_char c = (let n = (of_char c :: nat) in if 65 \<le> n \<and> n \<le> 90 then char_of (n + 32) else c)"

definition str_lower :: "string \<Rightarrow> string" where
  "str_lower s = map lower_char s"

text \<open>\<open>s.split(sep)\<close> for a one-character separator; \<open>acc\<close> is the current token, reversed.\<close>

fun split_from :: "char \<Rightarrow> string \<Rightarrow> string \<Rightarrow> string list" where
  "split_from sep acc [] = [rev acc]"
| "split_from sep acc (c # cs) =
     (if c = sep then rev acc # split_from sep [] cs else split_from sep (c # acc) cs)"

definition str_split :: "char \<Rightarrow> string \<Rightarrow> string list" where
  "str_split sep s = split_from sep [] s"

fun str_join :: "string \<Rightarrow> string list \<Rightarrow> string" where
  "str_join sep [] = []"
| "str_join sep [t] = t"
| "str_join sep (t # ts) = t @ sep @ str_join sep ts"

text \<open>\<open>sub in s\<close> on strings: \<open>sub\<close> occurs in \<open>s\<close> as a contiguous substring.\<close>

fun str_contains :: "string \<Rightarrow> string \<Rightarrow> bool" where
  "str_contains sub [] = (sub = [])"
| "str_contains sub (c # cs) = (take (length sub) (c # cs) = sub \<or> str_contains sub cs)"

text \<open>\<open>xs[:n]\<close> for a Python int \<open>n\<close>: a negative \<open>n\<close> counts from the end.\<close>

definition slice_to :: "'a list \<Rightarrow> int \<Rightarrow> 'a list" where
  "slice_to xs n = (if 0 \<le> n then take (nat n) xs else take (length xs - nat (- n)) xs)"

text \<open>\<open>xs[-n:]\<close> for a literal \<open>n > 0\<close>: the last \<open>n\<close> elements, all of a shorter list.\<close>

definition slice_last :: "nat \<Rightarrow> 'a list \<Rightarrow> 'a list" where
  "slice_last n xs = drop (length xs - n) xs"

section \<open>Data model\<close>

datatype qtype = multiple_choice | true_false | short_answer | multi_select

record question =
  q_id :: string
  q_text :: string
  q_type :: qtype
  q_options :: "(string \<times> string) list"
  q_correct_answer :: string
  q_difficulty :: string
  q_tags :: "string list"
  q_explanation :: string
  q_points :: int
  q_created_at :: timestamp

record quiz =
  qz_id :: string
  qz_title :: string
  qz_description :: string
  qz_question_ids :: "string list"
  qz_time_limit_mins :: int
  qz_passing_score :: rat
  qz_shuffle_questions :: bool
  qz_shuffle_options :: bool
  qz_allow_review :: bool
  qz_max_attempts :: int
  qz_created_at :: timestamp

text \<open>
  \<open>a_answers\<close> is the JSON object of the \<open>answers\<close> column: keys in insertion order, no key
  twice (\<open>AList.update\<close> is \<open>answers[k] = v\<close> on such a list).
\<close>

record attempt =
  a_id :: string
  a_quiz_id :: string
  a_student_id :: string
  a_answers :: "(string \<times> string) list"
  a_score :: "rat option"
  a_started_at :: timestamp
  a_completed_at :: "timestamp option"
  a_time_taken_mins :: "rat option"
  a_passed :: "bool option"

text \<open>One entry of \<open>grade_attempt_dict\<close>'s \<open>results\<close> list.\<close>

record question_result =
  r_question_id :: string
  r_question_text :: string
  r_student_answer :: string
  r_correct_answer :: string
  r_is_correct :: bool
  r_points_earned :: int
  r_points_possible :: int
  r_explanation :: string

text \<open>One row of the \<open>question_results\<close> table.\<close>

record qr_row =
  qr_id :: string
  qr_attempt_id :: string
  qr_question_id :: string
  qr_student_answer :: string
  qr_is_correct :: bool
  qr_points_earned :: int
  qr_points_possible :: int

text \<open>The database: four tables, each a list of rows in insertion (rowid) order.\<close>

record db =
  questions :: "question list"
  quizzes :: "quiz list"
  attempts :: "attempt list"
  question_results :: "qr_row list"

definition init_db :: db where
  "init_db = \<lparr>questions = [], quizzes = [], attempts = [], question_results = []\<rparr>"

text \<open>
  The \<open>{"error": ...}\<close> results of the source, by message: "Quiz <id> not found",
  "Attempt not found", "Max attempts (<n>) reached for this quiz", "Attempt already
  completed", "No questions available for adaptive quiz"; \<open>IntegrityError\<close> is the
  exception sqlite3 raises on a violated PRIMARY KEY or CHECK constraint (the
  transaction is rolled back).
\<close>

datatype error =
    QuizNotFound string
  | AttemptNotFound
  | LimitExceeded int
  | AlreadyCompleted
  | NoCandidates
  | IntegrityError

section \<open>Question and quiz stores\<close>

definition get_question :: "db \<Rightarrow> string \<Rightarrow> question option" where
  "get_question d question_id = find (\<lambda>q. q_id q = question_id) (questions d)"

definition get_quiz :: "db \<Rightarrow> string \<Rightarrow> quiz option" where
  "get_quiz d quiz_id = find (\<lambda>z. qz_id z = quiz_id) (quizzes d)"

fun get_quiz_questions_loop :: "db \<Rightarrow> string list \<Rightarrow> question list" where
  "get_quiz_questions_loop d [] = []"
| "get_quiz_questions_loop d (qid # qids) =
     (case get_question d qid of
        None \<Rightarrow> get_quiz_questions_loop d qids
      | Some q \<Rightarrow> q # get_quiz_questions_loop d qids)"

definition get_quiz_questions :: "db \<Rightarrow> string \<Rightarrow> question list" where
  "get_quiz_questions d quiz_id =
     (case get_quiz d quiz_id of
        None \<Rightarrow> []
      | Some quiz \<Rightarrow> get_quiz_questions_loop d (qz_question_ids quiz))"

text \<open>
  \<open>uid\<close> and \<open>now\<close> are what \<open>_uid()\<close> and \<open>_now()\<close> return in this call. The INSERT
  fails on a primary key already in the table and on a difficulty outside the CHECK list.
\<close>

definition create_question ::
  "string \<Rightarrow> timestamp \<Rightarrow> string \<Rightarrow> qtype \<Rightarrow> (string \<times> string) list \<Rightarrow> string \<Rightarrow> string \<Rightarrow>
   string list option \<Rightarrow> string \<Rightarrow> int \<Rightarrow> db \<Rightarrow> (error + question) \<times> db" where
  "create_question uid now text' q_type' options correct_answer difficulty tags explanation points d =
     (let q = \<lparr>q_id = uid, q_text = text', q_type = q_type', q_options = options,
                q_correct_answer = correct_answer, q_difficulty = difficulty,
                q_tags = (case tags of None \<Rightarrow> [] | Some ts \<Rightarrow> ts),
                q_explanation = explanation, q_points = points, q_created_at = now\<rparr>
      in if uid \<in> set (map q_id (questions d)) \<or> difficulty \<notin> set [''easy'', ''medium'', ''hard'']
         then (Inl IntegrityError, d)
         else (Inr q, d\<lparr>questions := questions d @ [q]\<rparr>))"

definition list_questions :: "db \<Rightarrow> string list option \<Rightarrow> string option \<Rightarrow> question list" where
  "list_questions d tags difficulty =
     (let rows = (case difficulty of
                    None \<Rightarrow> questions d
                  | Some dif \<Rightarrow> if dif \<noteq> [] then filter (\<lambda>q. q_difficulty q = dif) (questions d)
                               else questions d)
      in case tags of
           None \<Rightarrow> rows
         | Some ts \<Rightarrow> if ts \<noteq> [] then filter (\<lambda>qobj. list_ex (\<lambda>t. t \<in> set (q_tags qobj)) ts) rows
                      else rows)"

definition create_quiz ::
  "string \<Rightarrow> timestamp \<Rightarrow> string \<Rightarrow> string \<Rightarrow> string list \<Rightarrow> int \<Rightarrow> rat \<Rightarrow> bool \<Rightarrow> int \<Rightarrow> db \<Rightarrow>
   (error + quiz) \<times> db" where
  "create_quiz uid now title description question_ids time_limit_mins passing_score
       shuffle_questions max_attempts d =
     (let quiz = \<lparr>qz_id = uid, qz_title = title, qz_description = description,
                   qz_question_ids = question_ids, qz_time_limit_mins = time_limit_mins,
                   qz_passing_score = passing_score, qz_shuffle_questions = shuffle_questions,
                   qz_shuffle_options = False, qz_allow_review = True,
                   qz_max_attempts = max_attempts, qz_created_at = now\<rparr>
      in if uid \<in> set (map qz_id (quizzes d)) then (Inl IntegrityError, d)
         else (Inr quiz, d\<lparr>quizzes := quizzes d @ [quiz]\<rparr>))"

section \<open>Grading engine\<close>

text \<open>\<open>set(a.strip() for a in s.split(",") if a.strip())\<close>\<close>

definition answer_set :: "string \<Rightarrow> string set" where
  "answer_set s = set (map str_strip (filter (\<lambda>a. str_strip a \<noteq> []) (str_split (CHR '','') s)))"

text \<open>The body of the loop of \<open>grade_attempt_dict\<close>: the result entry of one question.\<close>

definition grade_question :: "(string \<times> string) list \<Rightarrow> question \<Rightarrow> question_result" where
  "grade_question answers q =
     (let student_answer =
            str_lower (str_strip (case map_of answers (q_id q) of None \<Rightarrow> [] | Some a \<Rightarrow> a));
          correct = str_lower (str_strip (q_correct_answer q));
          is_correct =
            (case q_type q of
               multiple_choice \<Rightarrow> student_answer = correct
             | true_false \<Rightarrow> student_answer = correct
             | multi_select \<Rightarrow> answer_set student_answer = answer_set correct
             | short_answer \<Rightarrow> str_contains correct student_answer \<or> student_answer = correct);
          pts = (if is_correct then q_points q else 0)
      in \<lparr>r_question_id = q_id q, r_question_text = take 60 (q_text q),
          r_student_answer = student_answer, r_correct_answer = q_correct_answer q,
          r_is_correct = is_correct, r_points_earned = pts, r_points_possible = q_points q,
          r_explanation = q_explanation q\<rparr>)"

text \<open>The loop, with its four accumulators: total_points, earned_points, correct_count, results.\<close>

fun grade_loop ::
  "(string \<times> string) list \<Rightarrow> question list \<Rightarrow> int \<times> int \<times> nat \<times> question_result list \<Rightarrow>
   int \<times> int \<times> nat \<times> question_result list" where
  "grade_loop answers [] acc = acc"
| "grade_loop answers (q # qs) (total_points, earned_points, correct_count, results) =
     (let r = grade_question answers q
      in grade_loop answers qs
           (total_points + q_points q, earned_points + r_points_earned r,
            (if r_is_correct r then correct_count + 1 else correct_count), results @ [r]))"

record grade_result =
  g_score :: rat
  g_correct :: nat
  g_total :: nat
  g_earned_points :: int
  g_total_points :: int
  g_results :: "question_result list"

definition grade_attempt_dict :: "db \<Rightarrow> attempt \<Rightarrow> grade_result" where
  "grade_attempt_dict d attempt_data =
     (let answers = a_answers attempt_data;
          questions' = get_quiz_questions d (a_quiz_id attempt_data)
      in case grade_loop answers questions' (0, 0, 0, []) of
           (total_points, earned_points, correct_count, results) \<Rightarrow>
             \<lparr>g_score = (if total_points > 0
                         then py_round (of_int earned_points / of_int total_points * 100) 2
                         else 0),
              g_correct = correct_count, g_total = length questions',
              g_earned_points = earned_points, g_total_points = total_points,
              g_results = results\<rparr>)"

section \<open>Attempt lifecycle\<close>

definition start_attempt :: "string \<Rightarrow> timestamp \<Rightarrow> string \<Rightarrow> string \<Rightarrow> db \<Rightarrow> (error + attempt) \<times> db" where
  "start_attempt uid now quiz_id student_id d =
     (case get_quiz d quiz_id of
        None \<Rightarrow> (Inl (QuizNotFound quiz_id), d)
      | Some quiz \<Rightarrow>
          let prev_attempts =
                int (length (filter (\<lambda>a. a_quiz_id a = quiz_id \<and> a_student_id a = student_id)
                               (attempts d)))
          in if prev_attempts \<ge> qz_max_attempts quiz
             then (Inl (LimitExceeded (qz_max_attempts quiz)), d)
             else let attempt = \<lparr>a_id = uid, a_quiz_id = quiz_id, a_student_id = student_id,
                                  a_answers = [], a_score = None, a_started_at = now,
                                  a_completed_at = None, a_time_taken_mins = None,
                                  a_passed = None\<rparr>
                  in if uid \<in> set (map a_id (attempts d)) then (Inl IntegrityError, d)
                     else (Inr attempt, d\<lparr>attempts := attempts d @ [attempt]\<rparr>))"

text \<open>The success payload of \<open>submit_answer\<close>: attempt_id, question_id, answer (saved = True).\<close>

definition submit_answer ::
  "string \<Rightarrow> string \<Rightarrow> string \<Rightarrow> db \<Rightarrow> (error + string \<times> string \<times> string) \<times> db" where
  "submit_answer attempt_id question_id answer d =
     (case find (\<lambda>a. a_id a = attempt_id) (attempts d) of
        None \<Rightarrow> (Inl AttemptNotFound, d)
      | Some row \<Rightarrow>
          if a_completed_at row \<noteq> None then (Inl AlreadyCompleted, d)
          else let answers = AList.update question_id answer (a_answers row)
               in (Inr (attempt_id, question_id, answer),
                   d\<lparr>attempts := map (\<lambda>a. if a_id a = attempt_id then a\<lparr>a_answers := answers\<rparr> else a)
                                     (attempts d)\<rparr>))"

text \<open>
  The loop storing the per-question results: \<open>uids i\<close> is what the \<open>i\<close>-th call of
  \<open>_uid()\<close> returns; INSERT OR REPLACE removes a row with the same primary key first.
\<close>

fun store_results :: "(nat \<Rightarrow> string) \<Rightarrow> string \<Rightarrow> question_result list \<Rightarrow> nat \<Rightarrow> qr_row list \<Rightarrow> qr_row list" where
  "store_results uids attempt_id [] i rows = rows"
| "store_results uids attempt_id (qr # qrs) i rows =
     store_results uids attempt_id qrs (Suc i)
       (filter (\<lambda>r. qr_id r \<noteq> uids i) rows @
        [\<lparr>qr_id = uids i, qr_attempt_id = attempt_id, qr_question_id = r_question_id qr,
          qr_student_answer = r_student_answer qr, qr_is_correct = r_is_correct qr,
          qr_points_earned = r_points_earned qr, qr_points_possible = r_points_possible qr\<rparr>])"

record completion =
  c_attempt_id :: string
  c_score :: rat
  c_passed :: bool
  c_time_taken_mins :: rat
  c_correct :: nat
  c_total :: nat
  c_results :: "question_result list"

text \<open>\<open>now_dt\<close> and \<open>completed_at\<close> are the two readings of the clock the call makes.\<close>

definition complete_attempt ::
  "(nat \<Rightarrow> string) \<Rightarrow> timestamp \<Rightarrow> timestamp \<Rightarrow> string \<Rightarrow> db \<Rightarrow> (error + completion) \<times> db" where
  "complete_attempt uids now_dt completed_at attempt_id d =
     (case find (\<lambda>a. a_id a = attempt_id) (attempts d) of
        None \<Rightarrow> (Inl AttemptNotFound, d)
      | Some row \<Rightarrow>
          if a_completed_at row \<noteq> None then (Inl AlreadyCompleted, d)
          else let time_taken = of_int (now_dt - a_started_at row) / 1000000 / 60;
                   grade_result = grade_attempt_dict d row;
                   score = g_score grade_result;
                   passed = (case get_quiz d (a_quiz_id row) of
                               Some quiz \<Rightarrow> score \<ge> qz_passing_score quiz
                             | None \<Rightarrow> False)
               in (Inr \<lparr>c_attempt_id = attempt_id, c_score = score, c_passed = passed,
                        c_time_taken_mins = py_round time_taken 2,
                        c_correct = g_correct grade_result, c_total = g_total grade_result,
                        c_results = g_results grade_result\<rparr>,
                   d\<lparr>attempts :=
                        map (\<lambda>a. if a_id a = attempt_id
                                  then a\<lparr>a_completed_at := Some completed_at, a_score := Some score,
                                         a_time_taken_mins := Some (py_round time_taken 2),
                                         a_passed := Some passed\<rparr>
                                  else a)
                            (attempts d),
                      question_results :=
                        store_results uids attempt_id (g_results grade_result) 0
                          (question_results d)\<rparr>))"

section \<open>Analytics\<close>

record question_stat =
  s_question_id :: string
  s_question_text :: string
  s_difficulty :: string
  s_correct_rate :: "rat option"
  s_total_answers :: nat

text \<open>
  The rows of \<open>SELECT is_correct, COUNT(*) ... GROUP BY is_correct\<close>: one row for each value
  of is_correct that occurs, 0 before 1.
\<close>

definition group_by_is_correct :: "qr_row list \<Rightarrow> (bool \<times> nat) list" where
  "group_by_is_correct rows =
     (let n0 = length (filter (\<lambda>r. \<not> qr_is_correct r) rows);
          n1 = length (filter qr_is_correct rows)
      in (if n0 > 0 then [(False, n0)] else []) @ (if n1 > 0 then [(True, n1)] else []))"

fun question_stats_loop :: "db \<Rightarrow> string \<Rightarrow> string list \<Rightarrow> question_stat list" where
  "question_stats_loop d quiz_id [] = []"
| "question_stats_loop d quiz_id (qid # qids) =
     (case get_question d qid of
        None \<Rightarrow> question_stats_loop d quiz_id qids
      | Some q \<Rightarrow>
          let completed_ids =
                map a_id (filter (\<lambda>a. a_quiz_id a = quiz_id \<and> a_completed_at a \<noteq> None) (attempts d));
              q_results =
                group_by_is_correct
                  (filter (\<lambda>r. qr_question_id r = qid \<and> qr_attempt_id r \<in> set completed_ids)
                     (question_results d));
              correct_n = (case filter fst q_results of [] \<Rightarrow> 0 | r # _ \<Rightarrow> snd r);
              total_n = sum_list (map snd q_results)
          in \<lparr>s_question_id = qid, s_question_text = take 80 (q_text q),
              s_difficulty = q_difficulty q,
              s_correct_rate =
                (if total_n > 0 then Some (py_round (of_nat correct_n / of_nat total_n * 100) 1)
                 else None),
              s_total_answers = total_n\<rparr>
             # question_stats_loop d quiz_id qids)"

text \<open>
  The sort key \<open>x["correct_rate"] or 100\<close>: Python's \<open>or\<close> yields its left operand when that
  is truthy, and both \<open>None\<close> and \<open>0.0\<close> are falsy.
\<close>

definition correct_rate_or_100 :: "question_stat \<Rightarrow> rat" where
  "correct_rate_or_100 x =
     (case s_correct_rate x of None \<Rightarrow> 100 | Some r \<Rightarrow> if r = 0 then 100 else r)"

fun list_min :: "rat list \<Rightarrow> rat option" where
  "list_min [] = None"
| "list_min (x # xs) = Some (fold min xs x)"

fun list_max :: "rat list \<Rightarrow> rat option" where
  "list_max [] = None"
| "list_max (x # xs) = Some (fold max xs x)"

record quiz_analytics =
  an_quiz_id :: string
  an_title :: string
  an_total_attempts :: nat
  an_unique_students :: nat
  an_avg_score :: "rat option"
  an_min_score :: "rat option"
  an_max_score :: "rat option"
  an_pass_rate :: rat
  an_avg_time_mins :: "rat option"
  an_passing_score :: rat
  an_hardest_questions :: "question_stat list"
  an_easiest_questions :: "question_stat list"
  an_question_stats :: "question_stat list"

text \<open>
  The two shapes of the result: with no completed attempt only quiz_id and title vary
  (total_attempts = 0, unique_students = 0, avg_score = pass_rate = None, question_stats = []).
\<close>

datatype analytics = NoCompletedAttempts string string | Analytics quiz_analytics

definition get_analytics :: "db \<Rightarrow> string \<Rightarrow> error + analytics" where
  "get_analytics d quiz_id =
     (case get_quiz d quiz_id of
        None \<Rightarrow> Inl (QuizNotFound quiz_id)
      | Some quiz \<Rightarrow>
          let attempts' = filter (\<lambda>a. a_quiz_id a = quiz_id \<and> a_completed_at a \<noteq> None) (attempts d)
          in if attempts' = [] then Inr (NoCompletedAttempts quiz_id (qz_title quiz))
             else
               let scores = map (\<lambda>a. the (a_score a)) (filter (\<lambda>a. a_score a \<noteq> None) attempts');
                   passed = filter (\<lambda>a. a_passed a = Some True) attempts';
                   unique_students = length (remdups (map a_student_id attempts'));
                   question_stats =
                     sort_key correct_rate_or_100
                       (question_stats_loop d quiz_id (qz_question_ids quiz));
                   times = map (\<lambda>a. the (a_time_taken_mins a))
                             (filter (\<lambda>a. a_time_taken_mins a \<noteq> None) attempts');
                   avg_time = (if times \<noteq> []
                               then Some (py_round (sum_list times / of_nat (length times)) 2)
                               else None)
               in Inr (Analytics
                    \<lparr>an_quiz_id = quiz_id, an_title = qz_title quiz,
                     an_total_attempts = length attempts', an_unique_students = unique_students,
                     an_avg_score = (if scores \<noteq> []
                                     then Some (py_round (sum_list scores / of_nat (length scores)) 2)
                                     else None),
                     an_min_score = list_min scores, an_max_score = list_max scores,
                     an_pass_rate =
                       py_round (of_nat (length passed) / of_nat (length attempts') * 100) 1,
                     an_avg_time_mins = avg_time, an_passing_score = qz_passing_score quiz,
                     an_hardest_questions = take 3 question_stats,
                     an_easiest_questions = rev (slice_last 3 question_stats),
                     an_question_stats = question_stats\<rparr>))"

section \<open>Adaptive selector\<close>

text \<open>
  The ids of \<open>SELECT DISTINCT qr.question_id FROM question_results qr JOIN attempts a ON
  qr.attempt_id = a.id WHERE a.student_id=? AND qr.is_correct=1\<close>.
\<close>

definition answered_correctly :: "db \<Rightarrow> string \<Rightarrow> string set" where
  "answered_correctly d student_id =
     set (map qr_question_id
            (filter (\<lambda>r. qr_is_correct r \<and>
                          list_ex (\<lambda>a. a_id a = qr_attempt_id r \<and> a_student_id a = student_id)
                            (attempts d))
               (question_results d)))"

definition build_adaptive_quiz ::
  "string \<Rightarrow> timestamp \<Rightarrow> string \<Rightarrow> string list \<Rightarrow> string \<Rightarrow> int \<Rightarrow> db \<Rightarrow> (error + quiz) \<times> db" where
  "build_adaptive_quiz uid now student_id topic_tags target_difficulty num_questions d =
     (let all_qs = list_questions d (Some topic_tags) (Some target_difficulty);
          candidates = filter (\<lambda>q. q_id q \<notin> answered_correctly d student_id) all_qs;
          candidates =
            (if int (length candidates) < num_questions
             then filter (\<lambda>q. q_id q \<notin> answered_correctly d student_id)
                    (list_questions d (Some topic_tags) None)
             else candidates)
      in if candidates = [] then (Inl NoCandidates, d)
         else let selected = slice_to candidates num_questions
              in create_quiz uid now
                   (''Adaptive Quiz '' @ [CHR 0xE2, CHR 0x80, CHR 0x93] @ '' '' @
                    str_join '', '' (take 3 topic_tags))
                   (''Auto-generated adaptive quiz for student '' @ student_id)
                   (map q_id selected) (int (length selected) * 3) 70 False 3 d)"

section \<open>States reachable through the public operations\<close>

inductive reachable :: "db \<Rightarrow> bool" where
  r_init: "reachable init_db"
| r_create_question:
    "reachable d \<Longrightarrow>
     reachable (snd (create_question uid now text' q_type' options correct_answer difficulty
                       tags explanation points d))"
| r_create_quiz:
    "reachable d \<Longrightarrow>
     reachable (snd (create_quiz uid now title description question_ids time_limit_mins
                       passing_score shuffle_questions max_attempts d))"
| r_start_attempt:
    "reachable d \<Longrightarrow> reachable (snd (start_attempt uid now quiz_id student_id d))"
| r_submit_answer:
    "reachable d \<Longrightarrow> reachable (snd (submit_answer attempt_id question_id answer d))"
| r_complete_attempt:
    "reachable d \<Longrightarrow> reachable (snd (complete_attempt uids now_dt completed_at attempt_id d))"
| r_build_adaptive_quiz:
    "reachable d \<Longrightarrow>
     reachable (snd (build_adaptive_quiz uid now student_id topic_tags target_difficulty
                       num_questions d))"

text \<open>The invariant of an attempt row: score and passed are set exactly when completed_at is.\<close>

definition score_passed_iff_completed :: "attempt \<Rightarrow> bool" where
  "score_passed_iff_completed a \<longleftrightarrow>
     (a_score a \<noteq> None \<longleftrightarrow> a_completed_at a \<noteq> None) \<and>
     (a_passed a \<noteq> None \<longleftrightarrow> a_completed_at a \<noteq> None)"

section \<open>Worked scenarios\<close>

text \<open>
  A session of the engine: two questions, a quiz that also lists an id no question has,
  one attempt by student s1 who answers the first question only and completes.
\<close>

definition ex_db1 :: db where
  "ex_db1 = snd (create_question ''q1'' 0 ''Capital of France?'' short_answer [] ''Paris''
                   ''easy'' (Some [''geo'']) [] 1 init_db)"

definition ex_db2 :: db where
  "ex_db2 = snd (create_question ''q2'' 1 ''Select all even numbers'' multi_select
                   [(''a'', ''2''), (''b'', ''3''), (''c'', ''4'')] ''a,c''
                   ''medium'' (Some [''math'']) [] 1 ex_db1)"

definition ex_db3 :: db where
  "ex_db3 = snd (create_quiz ''z1'' 2 ''Quiz'' ''demo'' [''q1'', ''gone'', ''q2''] 30 50 False 1 ex_db2)"

definition ex_quiz :: quiz where
  "ex_quiz = \<lparr>qz_id = ''z1'', qz_title = ''Quiz'', qz_description = ''demo'',
               qz_question_ids = [''q1'', ''gone'', ''q2''], qz_time_limit_mins = 30,
               qz_passing_score = 50, qz_shuffle_questions = False, qz_shuffle_options = False,
               qz_allow_review = True, qz_max_attempts = 1, qz_created_at = 2\<rparr>"

definition ex_db4 :: db where
  "ex_db4 = snd (start_attempt ''a1'' 10 ''z1'' ''s1'' ex_db3)"

definition ex_db5 :: db where
  "ex_db5 = snd (submit_answer ''a1'' ''q1'' ''The capital is Paris'' ex_db4)"

definition ex_uids :: "nat \<Rightarrow> string" where
  "ex_uids i = replicate (Suc i) (CHR ''r'')"

definition ex_db6 :: db where
  "ex_db6 = snd (complete_attempt ex_uids 60000010 60000011 ''a1'' ex_db5)"

text \<open>
  Two questions, two completed attempts: h1 is answered wrongly in both (correct_rate 0.0),
  m1 correctly in one of them (correct_rate 50.0).
\<close>

definition c1_db1 :: db where
  "c1_db1 = snd (create_quiz ''zc'' 2 ''Ranking'' [] [''h1'', ''m1''] 10 50 False 3
              (snd (create_question ''m1'' 1 ''Medium one'' multiple_choice [] ''a'' ''medium'' None [] 1
              (snd (create_question ''h1'' 0 ''Hard one'' multiple_choice [] ''a'' ''hard'' None [] 1
                 init_db)))))"

definition c1_db2 :: db where
  "c1_db2 = snd (complete_attempt (\<lambda>i. replicate (Suc i) (CHR ''u'')) 100 101 ''t1''
              (snd (submit_answer ''t1'' ''m1'' ''a''
              (snd (submit_answer ''t1'' ''h1'' ''b''
              (snd (start_attempt ''t1'' 3 ''zc'' ''s1'' c1_db1)))))))"

definition c1_db3 :: db where
  "c1_db3 = snd (complete_attempt (\<lambda>i. replicate (Suc i) (CHR ''v'')) 200 201 ''t2''
              (snd (start_attempt ''t2'' 5 ''zc'' ''s2'' c1_db2)))"


text \<open>An adaptive quiz for s1, who has answered q1 correctly in the session above.\<close>

definition ex_adaptive :: "(error + quiz) \<times> db" where
  "ex_adaptive = build_adaptive_quiz ''z2'' 100 ''s1'' [''geo'', ''math''] ''easy'' 10 ex_db6"




section \<open>Attempt lifecycle: properties\<close>

lemma find_by_primary_key:
  "distinct (map a_id xs) \<Longrightarrow> a \<in> set xs \<Longrightarrow> find (\<lambda>x. a_id x = a_id a) xs = Some a"
  by (induction xs) (auto simp: image_iff)

text \<open>
  C2. Once an attempt's completed_at is set, submit_answer and complete_attempt on it both
  return the AlreadyCompleted error and leave the whole database (attempt rows, their
  answers, the question results) as it was. The attempt is a row of the table, whose ids
  are distinct (id is the primary key).
\<close>

theorem completed_attempt_is_frozen:
  assumes "a \<in> set (attempts d)" and "distinct (map a_id (attempts d))"
    and "a_completed_at a \<noteq> None"
  shows "submit_answer (a_id a) question_id answer d = (Inl AlreadyCompleted, d) \<and>
         complete_attempt uids now_dt completed_at (a_id a) d = (Inl AlreadyCompleted, d)"
  using assms find_by_primary_key [of "attempts d" a]
  by (simp add: submit_answer_def complete_attempt_def)

theorem completed_attempt_is_frozen_witness:
  "hd (attempts ex_db6) \<in> set (attempts ex_db6) \<and>
   distinct (map a_id (attempts ex_db6)) \<and>
   a_completed_at (hd (attempts ex_db6)) = Some 60000011 \<and>
   submit_answer (a_id (hd (attempts ex_db6))) ''q2'' ''a,c'' ex_db6 = (Inl AlreadyCompleted, ex_db6) \<and>
   complete_attempt ex_uids 70000000 70000001 (a_id (hd (attempts ex_db6))) ex_db6 =
     (Inl AlreadyCompleted, ex_db6)"
proof -
  have m: "hd (attempts ex_db6) \<in> set (attempts ex_db6)" by code_simp
  have d: "distinct (map a_id (attempts ex_db6))" by code_simp
  have c: "a_completed_at (hd (attempts ex_db6)) = Some 60000011" by code_simp
  then have c': "a_completed_at (hd (attempts ex_db6)) \<noteq> None" by simp
  show ?thesis
    using m d c completed_attempt_is_frozen [OF m d c', of "''q2''" "''a,c''" ex_uids 70000000 70000001]
    by simp
qed

text \<open>
  C3. For a quiz that exists, start_attempt returns the LimitExceeded error, changing
  nothing, whenever the student's attempts on the quiz (counted whatever their status)
  number at least max_attempts; otherwise, the generated id being new, it appends exactly
  one attempt row, in progress: empty answers, score, completed_at, time_taken_mins and
  passed all null.
\<close>

theorem start_attempt_limit:
  assumes "get_quiz d quiz_id = Some quiz"
  shows "(int (length (filter (\<lambda>a. a_quiz_id a = quiz_id \<and> a_student_id a = student_id) (attempts d)))
            \<ge> qz_max_attempts quiz \<longrightarrow>
          start_attempt uid now quiz_id student_id d = (Inl (LimitExceeded (qz_max_attempts quiz)), d)) \<and>
         (int (length (filter (\<lambda>a. a_quiz_id a = quiz_id \<and> a_student_id a = student_id) (attempts d)))
            < qz_max_attempts quiz \<and> uid \<notin> set (map a_id (attempts d)) \<longrightarrow>
          (\<exists>att. start_attempt uid now quiz_id student_id d = (Inr att, d\<lparr>attempts := attempts d @ [att]\<rparr>) \<and>
             a_id att = uid \<and> a_quiz_id att = quiz_id \<and> a_student_id att = student_id \<and>
             a_answers att = [] \<and> a_score att = None \<and> a_completed_at att = None \<and>
             a_time_taken_mins att = None \<and> a_passed att = None))"
  using assms by (simp add: start_attempt_def Let_def)

theorem start_attempt_limit_witness:
  "start_attempt ''a2'' 20 ''z1'' ''s1'' ex_db4 = (Inl (LimitExceeded 1), ex_db4) \<and>
   (\<exists>att. start_attempt ''a1'' 10 ''z1'' ''s1'' ex_db3 = (Inr att, ex_db3\<lparr>attempts := attempts ex_db3 @ [att]\<rparr>) \<and>
      a_id att = ''a1'' \<and> a_answers att = [] \<and> a_score att = None \<and>
      a_completed_at att = None \<and> a_passed att = None)"
proof -
  have q3: "get_quiz ex_db3 ''z1'' = Some ex_quiz" by code_simp
  have q4: "get_quiz ex_db4 ''z1'' = Some ex_quiz" by code_simp
  have m: "qz_max_attempts ex_quiz = 1" by code_simp
  have full: "int (length (filter (\<lambda>a. a_quiz_id a = ''z1'' \<and> a_student_id a = ''s1'') (attempts ex_db4)))
                \<ge> qz_max_attempts ex_quiz" by code_simp
  have room: "int (length (filter (\<lambda>a. a_quiz_id a = ''z1'' \<and> a_student_id a = ''s1'') (attempts ex_db3)))
                < qz_max_attempts ex_quiz \<and> ''a1'' \<notin> set (map a_id (attempts ex_db3))" by code_simp
  show ?thesis
    using start_attempt_limit [OF q4, of "''s1''" "''a2''" 20] full
      start_attempt_limit [OF q3, of "''s1''" "''a1''" 10] room m
    by auto
qed

subsection \<open>The invariant of the attempts table\<close>

lemma create_question_attempts:
  "attempts (snd (create_question uid now t ty os ca dif tags ex pts d)) = attempts d"
  by (simp add: create_question_def Let_def)

lemma create_quiz_attempts:
  "attempts (snd (create_quiz uid now t ds qids tlim ps sh ma d)) = attempts d"
  by (simp add: create_quiz_def Let_def)

lemma build_adaptive_quiz_attempts:
  "attempts (snd (build_adaptive_quiz uid now sid tags dif n d)) = attempts d"
  by (simp add: build_adaptive_quiz_def Let_def create_quiz_attempts)

lemma start_attempt_inv:
  "list_all score_passed_iff_completed (attempts d) \<Longrightarrow>
   list_all score_passed_iff_completed (attempts (snd (start_attempt uid now qid sid d)))"
  by (simp add: start_attempt_def Let_def score_passed_iff_completed_def split: option.splits)

lemma submit_answer_inv:
  "list_all score_passed_iff_completed (attempts d) \<Longrightarrow>
   list_all score_passed_iff_completed (attempts (snd (submit_answer aid qid ans d)))"
  by (auto simp: submit_answer_def Let_def score_passed_iff_completed_def list_all_iff
      split: option.splits)

lemma complete_attempt_inv:
  "list_all score_passed_iff_completed (attempts d) \<Longrightarrow>
   list_all score_passed_iff_completed (attempts (snd (complete_attempt uids n1 n2 aid d)))"
  by (auto simp: complete_attempt_def Let_def score_passed_iff_completed_def list_all_iff
      split: option.splits)

lemma reachable_inv: "reachable d \<Longrightarrow> list_all score_passed_iff_completed (attempts d)"
proof (induction rule: reachable.induct)
  case r_init
  show ?case by (simp add: init_db_def)
qed (simp_all add: create_question_attempts create_quiz_attempts build_adaptive_quiz_attempts
      start_attempt_inv submit_answer_inv complete_attempt_inv)

text \<open>
  C4. In every database state reached from the empty one through the public operations,
  every attempt row has a score exactly when it has a completed_at, and a passed flag
  exactly when it has a completed_at.
\<close>

theorem score_and_passed_set_iff_completed:
  assumes "reachable d" and "a \<in> set (attempts d)"
  shows "(a_score a \<noteq> None \<longleftrightarrow> a_completed_at a \<noteq> None) \<and>
         (a_passed a \<noteq> None \<longleftrightarrow> a_completed_at a \<noteq> None)"
  using reachable_inv [OF assms(1)] assms(2)
  by (simp add: list_all_iff score_passed_iff_completed_def)

theorem score_and_passed_set_iff_completed_witness:
  "reachable ex_db6 \<and> hd (attempts ex_db6) \<in> set (attempts ex_db6) \<and>
   a_completed_at (hd (attempts ex_db6)) \<noteq> None \<and>
   a_score (hd (attempts ex_db6)) \<noteq> None \<and> a_passed (hd (attempts ex_db6)) \<noteq> None \<and>
   reachable ex_db5 \<and> hd (attempts ex_db5) \<in> set (attempts ex_db5) \<and>
   a_completed_at (hd (attempts ex_db5)) = None \<and>
   a_score (hd (attempts ex_db5)) = None \<and> a_passed (hd (attempts ex_db5)) = None"
proof -
  have r5: "reachable ex_db5"
    unfolding ex_db5_def ex_db4_def ex_db3_def ex_db2_def ex_db1_def
    by (intro reachable.intros)
  have r6: "reachable ex_db6"
    unfolding ex_db6_def by (intro reachable.intros r5)
  have m6: "hd (attempts ex_db6) \<in> set (attempts ex_db6)" by code_simp
  have m5: "hd (attempts ex_db5) \<in> set (attempts ex_db5)" by code_simp
  have c6: "a_completed_at (hd (attempts ex_db6)) \<noteq> None" by code_simp
  have c5: "a_completed_at (hd (attempts ex_db5)) = None" by code_simp
  show ?thesis
    using r5 r6 m5 m6 c5 c6
      score_and_passed_set_iff_completed [OF r6 m6]
      score_and_passed_set_iff_completed [OF r5 m5]
    by simp
qed

section \<open>Grading engine: properties\<close>




















section \<open>Adaptive selector: properties\<close>

lemma answered_correctly_iff:
  "qid \<in> answered_correctly d student_id \<longleftrightarrow>
     (\<exists>r \<in> set (question_results d). \<exists>a \<in> set (attempts d).
        qr_question_id r = qid \<and> qr_is_correct r \<and> a_id a = qr_attempt_id r \<and>
        a_student_id a = student_id)"
  by (auto simp: answered_correctly_def list_ex_iff)

lemma set_slice_to: "set (slice_to xs n) \<subseteq> set xs"
  by (auto simp: slice_to_def dest: in_set_takeD)

lemma set_list_questions:
  "set (list_questions d (Some tags) difficulty) \<subseteq>
     {q \<in> set (questions d). tags = [] \<or> (\<exists>t \<in> set tags. t \<in> set (q_tags q))}"
  by (auto simp: list_questions_def Let_def list_ex_iff split: option.splits if_splits)

text \<open>
  C9. Whenever build_adaptive_quiz returns a quiz, none of its question ids has a correct
  question result of any attempt of the student, on whatever quiz; and when every question
  matching the tags at any difficulty has such a result, it returns the NoCandidates error
  and changes nothing.
\<close>

theorem adaptive_quiz_excludes_mastered:
  "(\<forall>quiz d'. build_adaptive_quiz uid now student_id topic_tags target_difficulty num_questions d
                  = (Inr quiz, d') \<longrightarrow>
       (\<forall>qid \<in> set (qz_question_ids quiz).
          \<not> (\<exists>r \<in> set (question_results d). \<exists>a \<in> set (attempts d).
                qr_question_id r = qid \<and> qr_is_correct r \<and> a_id a = qr_attempt_id r \<and>
                a_student_id a = student_id))) \<and>
   ((\<forall>q \<in> set (questions d).
        (topic_tags = [] \<or> (\<exists>t \<in> set topic_tags. t \<in> set (q_tags q))) \<longrightarrow>
        (\<exists>r \<in> set (question_results d). \<exists>a \<in> set (attempts d).
            qr_question_id r = q_id q \<and> qr_is_correct r \<and> a_id a = qr_attempt_id r \<and>
            a_student_id a = student_id)) \<longrightarrow>
    build_adaptive_quiz uid now student_id topic_tags target_difficulty num_questions d
      = (Inl NoCandidates, d))"
proof (intro conjI allI impI)
  fix quiz d'
  assume b: "build_adaptive_quiz uid now student_id topic_tags target_difficulty num_questions d
               = (Inr quiz, d')"
  define cands where "cands =
     (if int (length (filter (\<lambda>q. q_id q \<notin> answered_correctly d student_id)
                 (list_questions d (Some topic_tags) (Some target_difficulty)))) < num_questions
      then filter (\<lambda>q. q_id q \<notin> answered_correctly d student_id)
             (list_questions d (Some topic_tags) None)
      else filter (\<lambda>q. q_id q \<notin> answered_correctly d student_id)
             (list_questions d (Some topic_tags) (Some target_difficulty)))"
  have c: "\<forall>q \<in> set cands. q_id q \<notin> answered_correctly d student_id"
    by (auto simp: cands_def)
  from b have "qz_question_ids quiz = map q_id (slice_to cands num_questions)"
    by (auto simp: build_adaptive_quiz_def Let_def create_quiz_def cands_def split: if_splits)
  with c set_slice_to [of cands num_questions]
  have "\<forall>qid \<in> set (qz_question_ids quiz). qid \<notin> answered_correctly d student_id"
    by auto
  then show "\<forall>qid \<in> set (qz_question_ids quiz).
          \<not> (\<exists>r \<in> set (question_results d). \<exists>a \<in> set (attempts d).
                qr_question_id r = qid \<and> qr_is_correct r \<and> a_id a = qr_attempt_id r \<and>
                a_student_id a = student_id)"
    by (simp add: answered_correctly_iff)
next
  assume a: "\<forall>q \<in> set (questions d).
        (topic_tags = [] \<or> (\<exists>t \<in> set topic_tags. t \<in> set (q_tags q))) \<longrightarrow>
        (\<exists>r \<in> set (question_results d). \<exists>a \<in> set (attempts d).
            qr_question_id r = q_id q \<and> qr_is_correct r \<and> a_id a = qr_attempt_id r \<and>
            a_student_id a = student_id)"
  have "filter (\<lambda>q. q_id q \<notin> answered_correctly d student_id)
          (list_questions d (Some topic_tags) difficulty) = []" for difficulty
  proof -
    have "\<forall>q \<in> set (list_questions d (Some topic_tags) difficulty).
            q_id q \<in> answered_correctly d student_id"
      using a set_list_questions [of d topic_tags difficulty]
      unfolding answered_correctly_iff by blast
    then show ?thesis by (simp add: filter_empty_conv)
  qed
  then show "build_adaptive_quiz uid now student_id topic_tags target_difficulty num_questions d
      = (Inl NoCandidates, d)"
    by (simp add: build_adaptive_quiz_def Let_def)
qed

theorem adaptive_quiz_excludes_mastered_witness:
  "ex_adaptive = (Inr (projr (fst ex_adaptive)), snd ex_adaptive) \<and>
   qz_question_ids (projr (fst ex_adaptive)) = [''q2''] \<and>
   \<not> (\<exists>r \<in> set (question_results ex_db6). \<exists>a \<in> set (attempts ex_db6).
         qr_question_id r = ''q2'' \<and> qr_is_correct r \<and> a_id a = qr_attempt_id r \<and>
         a_student_id a = ''s1'') \<and>
   (\<exists>r \<in> set (question_results ex_db6). \<exists>a \<in> set (attempts ex_db6).
         qr_question_id r = ''q1'' \<and> qr_is_correct r \<and> a_id a = qr_attempt_id r \<and>
         a_student_id a = ''s1'') \<and>
   build_adaptive_quiz ''z3'' 100 ''s1'' [''geo''] ''easy'' 10 ex_db6 = (Inl NoCandidates, ex_db6)"
proof -
  have e: "build_adaptive_quiz ''z2'' 100 ''s1'' [''geo'', ''math''] ''easy'' 10 ex_db6 =
             (Inr (projr (fst ex_adaptive)), snd ex_adaptive)"
    by code_simp
  have i: "qz_question_ids (projr (fst ex_adaptive)) = [''q2'']"
    by code_simp
  have m: "\<exists>r \<in> set (question_results ex_db6). \<exists>a \<in> set (attempts ex_db6).
         qr_question_id r = ''q1'' \<and> qr_is_correct r \<and> a_id a = qr_attempt_id r \<and>
         a_student_id a = ''s1''"
    by code_simp
  have h: "\<forall>q \<in> set (questions ex_db6).
        ([''geo''] = [] \<or> (\<exists>t \<in> set [''geo'']. t \<in> set (q_tags q))) \<longrightarrow>
        (\<exists>r \<in> set (question_results ex_db6). \<exists>a \<in> set (attempts ex_db6).
            qr_question_id r = q_id q \<and> qr_is_correct r \<and> a_id a = qr_attempt_id r \<and>
            a_student_id a = ''s1'')"
    by code_simp
  note t1 = adaptive_quiz_excludes_mastered
    [of "''z2''" 100 "''s1''" "[''geo'', ''math'']" "''easy''" 10 ex_db6, THEN conjunct1,
     THEN spec, THEN spec, THEN mp, OF e]
  note t2 = adaptive_quiz_excludes_mastered
    [of "''z3''" 100 "''s1''" "[''geo'']" "''easy''" 10 ex_db6, THEN conjunct2, THEN mp, OF h]
  from t1 i have n: "\<not> (\<exists>r \<in> set (question_results ex_db6). \<exists>a \<in> set (attempts ex_db6).
         qr_question_id r = ''q2'' \<and> qr_is_correct r \<and> a_id a = qr_attempt_id r \<and>
         a_student_id a = ''s1'')"
    by simp
  show ?thesis
    using e i n m t2 by (simp add: ex_adaptive_def)
qed

section \<open>Splitting, joining and trimming\<close>

lemma split_from_acc:
  "split_from sep acc s = (rev acc @ hd (split_from sep [] s)) # tl (split_from sep [] s)"
proof (induction s arbitrary: acc)
  case Nil
  show ?case by simp
next
  case (Cons c cs)
  show ?case
  proof (cases "c = sep")
    case True
    then show ?thesis by simp
  next
    case False
    have "split_from sep (c # acc) cs =
            (rev (c # acc) @ hd (split_from sep [] cs)) # tl (split_from sep [] cs)"
      by (rule Cons.IH)
    moreover have "split_from sep [c] cs =
            (rev [c] @ hd (split_from sep [] cs)) # tl (split_from sep [] cs)"
      by (rule Cons.IH)
    ultimately show ?thesis using False by simp
  qed
qed

lemma str_split_Nil: "str_split sep [] = [[]]"
  by (simp add: str_split_def)

lemma str_split_Cons:
  "str_split sep (c # cs) =
     (if c = sep then [] # str_split sep cs
      else (c # hd (str_split sep cs)) # tl (str_split sep cs))"
  using split_from_acc [of sep "[c]" cs] by (simp add: str_split_def)

lemma str_split_not_Nil: "str_split sep s \<noteq> []"
  by (cases s) (simp_all add: str_split_Nil str_split_Cons)





















lemma str_join_split: "str_join [sep] (str_split sep s) = s"
proof (induction s)
  case Nil
  show ?case by (simp add: str_split_Nil)
next
  case (Cons c cs)
  obtain x xs where X: "str_split sep cs = x # xs"
    using str_split_not_Nil [of sep cs] by (cases "str_split sep cs") auto
  show ?case
    using Cons.IH by (cases xs) (simp_all add: str_split_Cons X)
qed

lemma str_split_tokens_no_sep: "\<forall>t \<in> set (str_split sep s). sep \<notin> set t"
proof (induction s)
  case Nil
  show ?case by (simp add: str_split_Nil)
next
  case (Cons c cs)
  obtain x xs where X: "str_split sep cs = x # xs"
    using str_split_not_Nil [of sep cs] by (cases "str_split sep cs") auto
  show ?case
    using Cons.IH by (auto simp: str_split_Cons X)
qed

section \<open>Answer comparison rules\<close>






section \<open>Analytics: the ranking of questions\<close>

text \<open>
  What the ranking does: the per-question stats are sorted, stably, by the key
  \<open>correct_rate or 100\<close>; the hardest questions are the first three, the easiest the last
  three reversed.
\<close>

lemma get_analytics_ranking:
  assumes "get_analytics d quiz_id = Inr (Analytics an)"
  shows "sorted (map correct_rate_or_100 (an_question_stats an))"
    and "an_hardest_questions an = take 3 (an_question_stats an)"
    and "an_easiest_questions an = rev (slice_last 3 (an_question_stats an))"
    and "\<exists>quiz. get_quiz d quiz_id = Some quiz \<and>
           (\<forall>k. filter (\<lambda>x. correct_rate_or_100 x = k) (an_question_stats an) =
                filter (\<lambda>x. correct_rate_or_100 x = k)
                  (question_stats_loop d quiz_id (qz_question_ids quiz)))"
  using assms
  by (auto simp: get_analytics_def Let_def sort_key_stable split: option.splits if_splits)

text \<open>
  C1, at an input where it fails. The quiz lists h1 then m1; over two completed attempts h1
  has correct_rate 0.0 and m1 has 50.0. The key \<open>correct_rate or 100\<close> maps 0.0, like None,
  to 100, so the sorted list is m1 (50.0), h1 (0.0): not ascending by correct_rate, with
  the hardest question ranked last and reported first among the easiest.
\<close>

theorem zero_correct_rate_is_ranked_last:
  "(case get_analytics c1_db3 ''zc'' of
      Inr (Analytics an) \<Rightarrow>
        map (\<lambda>x. (s_question_id x, s_correct_rate x)) (an_question_stats an) =
          [(''m1'', Some 50), (''h1'', Some 0)] \<and>
        map s_question_id (an_hardest_questions an) = [''m1'', ''h1''] \<and>
        map s_question_id (an_easiest_questions an) = [''h1'', ''m1'']
    | _ \<Rightarrow> False)"
  by code_simp

end
